theory Spec2Isabelle
  imports Main
begin

section \<open>The dynArray class of Lesson5 Task.cpp\<close>

text \<open>
  The class wraps a \<^verbatim>\<open>std::vector<std::string>\<close>. The vector is modelled as a list of
  strings, a \<^verbatim>\<open>size_t\<close> as a natural number, and the standard output stream as the
  string of characters written to it so far.

  Two exceptions of the standard library are results of the model:
  \<^verbatim>\<open>std::out_of_range\<close>, thrown by \<^verbatim>\<open>std::vector::at\<close>, and
  \<^verbatim>\<open>std::length_error\<close>, thrown by \<^verbatim>\<open>std::vector::resize\<close> for a target above
  \<^verbatim>\<open>max_size()\<close>. The value of \<^verbatim>\<open>max_size()\<close> is a constant of the library and
  not of the source; it is the parameter \<open>max_size\<close> of the operations that check it.
  Running out of memory (\<^verbatim>\<open>std::bad_alloc\<close>) depends on the machine and not on the
  arguments of a call, and is outside the model; so is the length check of
  \<^verbatim>\<open>push_back\<close>, which only a vector that already holds \<^verbatim>\<open>max_size()\<close>
  elements meets.
\<close>

datatype error = OUT_OF_RANGE | LENGTH_ERROR

subsection \<open>The standard-library operations the class calls\<close>

type_synonym 'a vector = "'a list"

definition push_back :: "'a vector \<Rightarrow> 'a \<Rightarrow> 'a vector" where
  "push_back v x = v @ [x]"


text \<open>\<^verbatim>\<open>std::vector::at(n)\<close>: the bounds-checked access.\<close>

definition vector_at :: "'a vector \<Rightarrow> nat \<Rightarrow> error + 'a" where
  "vector_at v n = (if n < length v then Inr (v ! n) else Inl OUT_OF_RANGE)"

text \<open>
  The input string stream: the characters not yet extracted and the two state bits the
  loop depends on. A string stream has no device that could set \<^verbatim>\<open>badbit\<close>.
\<close>

record istringstream =
  buf :: string
  eofbit :: bool
  failbit :: bool

definition istringstream_init :: "string \<Rightarrow> istringstream" where
  "istringstream_init str = \<lparr>buf = str, eofbit = False, failbit = False\<rparr>"

definition good :: "istringstream \<Rightarrow> bool" where
  "good ss = (\<not> eofbit ss \<and> \<not> failbit ss)"

text \<open>
  The extraction step of \<^verbatim>\<open>std::getline(is, str, delim)\<close>: characters are taken from
  the stream and appended to the token until the end of the input is met or the next
  character is the delimiter, which is taken from the stream and not appended. The
  result is the token, the characters left in the stream, and whether a delimiter
  stopped the extraction (otherwise the end of the input did).
\<close>

fun getline_extract :: "char \<Rightarrow> string \<Rightarrow> string \<times> string \<times> bool" where
  "getline_extract delim [] = ([], [], False)"
| "getline_extract delim (c # cs) =
     (if c = delim then ([], cs, True)
      else (case getline_extract delim cs of (tok, rest, found) \<Rightarrow> (c # tok, rest, found)))"

text \<open>
  \<^verbatim>\<open>std::getline\<close>: when the stream is not good on entry the sentry sets
  \<^verbatim>\<open>failbit\<close> and the token is left as it was. Otherwise the token is erased and
  filled by the extraction; meeting the end of the input sets \<^verbatim>\<open>eofbit\<close>, and an
  extraction that took no character at all (not even a delimiter) sets \<^verbatim>\<open>failbit\<close>.
\<close>

definition getline :: "istringstream \<Rightarrow> string \<Rightarrow> char \<Rightarrow> istringstream \<times> string" where
  "getline ss str delim =
     (if \<not> good ss then (ss\<lparr>failbit := True\<rparr>, str)
      else (case getline_extract delim (buf ss) of
              (tok, rest, found) \<Rightarrow>
                (\<lparr>buf = rest, eofbit = \<not> found, failbit = (tok = [] \<and> \<not> found)\<rparr>, tok)))"

subsection \<open>The class\<close>

record dynArray =
  data :: "string vector"


text \<open>
  The loop of the splitting constructor,
  \<^verbatim>\<open>while (std::getline(ss, token, separator)) { data.push_back(token); }\<close>.
  The stream converts to true when \<^verbatim>\<open>failbit\<close> is not set. A loop that ran forever
  would be the value \<open>None\<close>. Line 31 of the source holds an unfinished member access
  (\<^verbatim>\<open>data.\<close> with no member named); it names no operation and has no effect here.
\<close>

partial_function (option) split_loop ::
  "istringstream \<Rightarrow> string \<Rightarrow> char \<Rightarrow> string vector \<Rightarrow> string vector option" where
  [code]: "split_loop ss token separator v =
     (case getline ss token separator of
        (ss', token') \<Rightarrow>
          if failbit ss' then Some v
          else split_loop ss' token' separator (push_back v token'))"

text \<open>The constructor that takes a string and a separator character.\<close>

definition dynArray_split :: "string \<Rightarrow> char \<Rightarrow> dynArray option" where
  "dynArray_split str separator =
     map_option (\<lambda>v. \<lparr>data = v\<rparr>) (split_loop (istringstream_init str) [] separator [])"

definition add :: "string \<Rightarrow> dynArray \<Rightarrow> dynArray" where
  "add element d = d\<lparr>data := push_back (data d) element\<rparr>"

text \<open>
  \<^verbatim>\<open>print\<close>: the range-based loop writes every element followed by one space, then
  \<^verbatim>\<open>std::endl\<close> writes the line terminator. The function maps the output written
  before the call to the output written after it.
\<close>

fun print_loop :: "string vector \<Rightarrow> string \<Rightarrow> string" where
  "print_loop [] cout = cout"
| "print_loop (elem # rest) cout = print_loop rest (cout @ elem @ '' '')"

definition endl :: "string \<Rightarrow> string" where
  "endl cout = cout @ [CHR 0x0A]"

definition print :: "dynArray \<Rightarrow> string \<Rightarrow> string" where
  "print d cout = endl (print_loop (data d) cout)"


definition size_dynArray :: "dynArray \<Rightarrow> nat" where
  "size_dynArray d = length (data d)"

text \<open>
  \<^verbatim>\<open>operator[]\<close>: both overloads return \<^verbatim>\<open>data.at(index)\<close>. Reading through either
  is \<open>operator_index\<close>. The first overload returns a reference into the vector;
  assigning through it, \<^verbatim>\<open>d[index] = value\<close>, is \<open>operator_index_assign\<close>: the
  bounds check of \<^verbatim>\<open>at\<close> comes first, then the element is overwritten in place.
\<close>

definition operator_index :: "dynArray \<Rightarrow> nat \<Rightarrow> error + string" where
  "operator_index d index = vector_at (data d) index"

definition operator_index_assign :: "dynArray \<Rightarrow> nat \<Rightarrow> string \<Rightarrow> error + dynArray" where
  "operator_index_assign d index val =
     (case vector_at (data d) index of
        Inl e \<Rightarrow> Inl e
      | Inr _ \<Rightarrow> Inr (d\<lparr>data := (data d)[index := val]\<rparr>))"

subsection \<open>Calls of the public members\<close>






subsection \<open>The tokens of a text, by recursion on the text\<close>

text \<open>
  A device of the proofs, not a function of the source: the list of tokens the loop of
  the splitting constructor collects, computed by recursion on the text. A separator
  closes the current token; the characters after the last separator form a token only
  when there are any. Lemma \<open>split_loop_tokens\<close> shows that the loop returns this list.
\<close>

fun split_tokens :: "char \<Rightarrow> string \<Rightarrow> string list" where
  "split_tokens sep [] = []"
| "split_tokens sep (c # cs) =
     (if c = sep then [] # split_tokens sep cs
      else (case split_tokens sep cs of [] \<Rightarrow> [[c]] | t # ts \<Rightarrow> (c # t) # ts))"

section \<open>The splitting loop terminates and computes the tokens\<close>

lemma getline_extract_shorter:
  "b \<noteq> [] \<Longrightarrow> getline_extract sep b = (t, r, f) \<Longrightarrow> length r < length b"
  by (induction b arbitrary: t r f) (auto split: if_splits prod.splits, fastforce)

lemma getline_extract_eof:
  "getline_extract sep b = (t, r, False) \<Longrightarrow> r = [] \<and> t = b"
  by (induction b arbitrary: t r) (auto split: if_splits prod.splits)

lemma split_tokens_extract:
  "b \<noteq> [] \<Longrightarrow> getline_extract sep b = (t, r, f) \<Longrightarrow>
   split_tokens sep b = t # split_tokens sep r"
proof (induction b arbitrary: t r f)
  case Nil
  then show ?case by simp
next
  case (Cons c cs)
  show ?case
  proof (cases "c = sep")
    case True
    with Cons.prems show ?thesis by simp
  next
    case False
    obtain t' r' f' where e: "getline_extract sep cs = (t', r', f')"
      by (cases "getline_extract sep cs") auto
    with False Cons.prems have tr: "t = c # t'" "r = r'" by simp_all
    show ?thesis
    proof (cases cs)
      case Nil
      with e tr False show ?thesis by simp
    next
      case (Cons a as)
      then have "cs \<noteq> []" by simp
      from Cons.IH [OF this e] tr False show ?thesis by simp
    qed
  qed
qed

text \<open>
  On a fresh stream the loop returns, by induction on the number of characters left:
  every \<^verbatim>\<open>getline\<close> that succeeds takes at least one character from the stream. When
  the end of the input stops an extraction that took characters, \<^verbatim>\<open>eofbit\<close> is set
  and the next \<^verbatim>\<open>getline\<close> fails at its sentry.
\<close>

lemma split_loop_tokens:
  "split_loop \<lparr>buf = b, eofbit = False, failbit = False\<rparr> tok sep v =
     Some (v @ split_tokens sep b)"
proof (induction b arbitrary: tok v rule: length_induct)
  case (1 b)
  show ?case
  proof (cases "b = []")
    case True
    then show ?thesis
      by (subst split_loop.simps) (simp add: getline_def good_def)
  next
    case False
    obtain t r f where e: "getline_extract sep b = (t, r, f)"
      by (cases "getline_extract sep b") auto
    note tk = split_tokens_extract [OF False e]
    show ?thesis
    proof (cases f)
      case True
      have "length r < length b" by (rule getline_extract_shorter [OF False e])
      with 1 have "split_loop \<lparr>buf = r, eofbit = False, failbit = False\<rparr> t sep (push_back v t)
          = Some (push_back v t @ split_tokens sep r)" by blast
      with True e tk show ?thesis
        by (subst split_loop.simps) (simp add: getline_def good_def push_back_def)
    next
      case f: False
      from e f have "r = [] \<and> t = b" by (simp add: getline_extract_eof)
      then have r: "r = []" "t = b" by simp_all
      have stop: "split_loop \<lparr>buf = [], eofbit = True, failbit = False\<rparr> t sep (push_back v t)
          = Some (push_back v t)"
        by (subst split_loop.simps) (simp add: getline_def good_def)
      from f e tk r False stop show ?thesis
        by (subst split_loop.simps) (simp add: getline_def good_def push_back_def)
    qed
  qed
qed

lemma dynArray_split_tokens:
  "dynArray_split str sep = Some \<lparr>data = split_tokens sep str\<rparr>"
  by (simp add: dynArray_split_def istringstream_init_def split_loop_tokens)

lemma split_tokens_eq_Nil: "split_tokens sep b = [] \<longleftrightarrow> b = []"
  by (cases b) (auto split: list.splits)

lemma split_tokens_no_sep:
  "b \<noteq> [] \<Longrightarrow> sep \<notin> set b \<Longrightarrow> split_tokens sep b = [b]"
proof (induction b)
  case Nil
  then show ?case by simp
next
  case (Cons c cs)
  then show ?case by (cases cs) auto
qed

lemma length_split_tokens:
  "length (split_tokens sep b) =
     count_list b sep + (if b = [] \<or> last b = sep then 0 else 1)"
proof (induction b)
  case Nil
  then show ?case by simp
next
  case (Cons c cs)
  show ?case
  proof (cases "cs = []")
    case True
    then show ?thesis by simp
  next
    case False
    then obtain t ts where "split_tokens sep cs = t # ts"
      by (cases "split_tokens sep cs") (auto simp: split_tokens_eq_Nil)
    with Cons False show ?thesis by auto
  qed
qed

lemma split_tokens_snoc:
  "split_tokens sep (p @ [sep]) =
     split_tokens sep p @ (if p = [] \<or> last p = sep then [[]] else [])"
proof (induction p)
  case Nil
  then show ?case by simp
next
  case (Cons c cs)
  show ?case
  proof (cases "cs = []")
    case True
    then show ?thesis by simp
  next
    case False
    then obtain t ts where "split_tokens sep cs = t # ts"
      by (cases "split_tokens sep cs") (auto simp: split_tokens_eq_Nil)
    with Cons False show ?thesis by auto
  qed
qed

lemma print_loop_concat:
  "print_loop v cout = cout @ concat (map (\<lambda>elem. elem @ '' '') v)"
  by (induction v arbitrary: cout) simp_all

section \<open>The claims\<close>

subsection \<open>Indexed access\<close>

text \<open>
  C1. For every container and every index below its length, \<^verbatim>\<open>operator[]\<close> returns
  the token at that position; for every other index it fails with \<open>OUT_OF_RANGE\<close>, a
  failure handed to the caller as the exception of \<^verbatim>\<open>std::vector::at\<close> and never a
  value.
\<close>

theorem operator_index_checked:
  "(index < size_dynArray d \<longrightarrow> operator_index d index = Inr (data d ! index)) \<and>
   (\<not> index < size_dynArray d \<longrightarrow> operator_index d index = Inl OUT_OF_RANGE)"
  by (simp add: operator_index_def vector_at_def size_dynArray_def)

theorem operator_index_checked_witness:
  "operator_index \<lparr>data = [''one'', ''two'']\<rparr> 1 = Inr ''two'' \<and>
   operator_index \<lparr>data = [''one'', ''two'']\<rparr> 5 = Inl OUT_OF_RANGE"
  using operator_index_checked [of 1 "\<lparr>data = [''one'', ''two'']\<rparr>"]
    operator_index_checked [of 5 "\<lparr>data = [''one'', ''two'']\<rparr>"]
  by (simp add: size_dynArray_def)

text \<open>
  C8. Assigning through the mutable accessor at an index below the length succeeds,
  leaves the length as it was, stores the value at that index and leaves the token at
  every other index, in or out of range, as it was.
\<close>

theorem operator_index_assign_frame:
  "index < size_dynArray d \<Longrightarrow>
   \<exists>d'. operator_index_assign d index val = Inr d' \<and>
        size_dynArray d' = size_dynArray d \<and>
        operator_index d' index = Inr val \<and>
        (\<forall>j. j \<noteq> index \<longrightarrow> operator_index d' j = operator_index d j)"
  by (simp add: operator_index_assign_def operator_index_def vector_at_def size_dynArray_def)

theorem operator_index_assign_frame_witness:
  "\<exists>d'. operator_index_assign \<lparr>data = [''one'', ''two'']\<rparr> 1 ''dos'' = Inr d' \<and>
        size_dynArray d' = 2 \<and>
        operator_index d' 1 = Inr ''dos'' \<and>
        operator_index d' 0 = operator_index \<lparr>data = [''one'', ''two'']\<rparr> 0"
  using operator_index_assign_frame [of 1 "\<lparr>data = [''one'', ''two'']\<rparr>" "''dos''"]
  by (auto simp add: size_dynArray_def)

subsection \<open>Print\<close>

text \<open>
  The claim C2 asks for a space between consecutive tokens only. The loop of
  \<^verbatim>\<open>print\<close> writes a space after every token, the last one too: for the container
  split from \<open>''one two three''\<close> the output ends in a space before the line
  terminator.
\<close>

theorem print_no_trailing_space_counterexample:
  "dynArray_split ''one two three'' (CHR '' '') =
     Some \<lparr>data = [''one'', ''two'', ''three'']\<rparr> \<and>
   print \<lparr>data = [''one'', ''two'', ''three'']\<rparr> [] = ''one two three '' @ [CHR 0x0A] \<and>
   print \<lparr>data = [''one'', ''two'', ''three'']\<rparr> [] \<noteq> ''one two three'' @ [CHR 0x0A]"
  by (simp add: dynArray_split_tokens print_def endl_def)

text \<open>
  C2, as the code has it. \<^verbatim>\<open>print\<close> appends to the standard output the tokens in
  order, each followed by one space, and then the line terminator; for the container
  split from \<open>''one two three''\<close> on a space that is \<open>''one two three ''\<close> and the
  line terminator.
\<close>

theorem print_output:
  "print d cout = cout @ concat (map (\<lambda>elem. elem @ '' '') (data d)) @ [CHR 0x0A] \<and>
   (\<exists>d3. dynArray_split ''one two three'' (CHR '' '') = Some d3 \<and>
         print d3 [] = ''one two three '' @ [CHR 0x0A])"
  by (simp add: print_def endl_def print_loop_concat dynArray_split_tokens)

subsection \<open>Resize and add\<close>




text \<open>
  C4. \<^verbatim>\<open>add(element)\<close> makes the length one more, the element the new last entry,
  and leaves every token stored before at its position.
\<close>

theorem add_appends:
  "size_dynArray (add element d) = size_dynArray d + 1 \<and>
   operator_index (add element d) (size_dynArray d) = Inr element \<and>
   (\<forall>i. i < size_dynArray d \<longrightarrow> operator_index (add element d) i = operator_index d i)"
  by (simp add: add_def push_back_def size_dynArray_def operator_index_def vector_at_def
      nth_append)

theorem add_appends_witness:
  "size_dynArray (add ''four'' \<lparr>data = [''one'', ''two'', ''three'']\<rparr>) = 4 \<and>
   operator_index (add ''four'' \<lparr>data = [''one'', ''two'', ''three'']\<rparr>) 3 = Inr ''four'' \<and>
   operator_index (add ''four'' \<lparr>data = [''one'', ''two'', ''three'']\<rparr>) 1 =
     operator_index \<lparr>data = [''one'', ''two'', ''three'']\<rparr> 1"
proof -
  have s: "size_dynArray \<lparr>data = [''one'', ''two'', ''three'']\<rparr> = 3"
    by (simp add: size_dynArray_def)
  from add_appends [of "''four''" "\<lparr>data = [''one'', ''two'', ''three'']\<rparr>"]
  show ?thesis unfolding s by simp
qed

subsection \<open>The splitting constructor\<close>

text \<open>
  The claim C5 counts the empty string among the texts that yield one token. The
  first \<^verbatim>\<open>getline\<close> on an empty stream extracts nothing and fails, so the loop body
  never runs: the container is empty.
\<close>

theorem split_empty_text_counterexample:
  "CHR '','' \<notin> set '''' \<and>
   dynArray_split '''' (CHR '','') = Some \<lparr>data = []\<rparr> \<and>
   dynArray_split '''' (CHR '','') \<noteq> Some \<lparr>data = ['''']\<rparr>"
  by (simp add: dynArray_split_tokens)

text \<open>
  C5, as the code has it. For every separator and every non-empty text in which the
  separator does not occur, the constructor returns a container of exactly one token,
  the text.
\<close>

theorem split_no_separator:
  "text \<noteq> [] \<Longrightarrow> sep \<notin> set text \<Longrightarrow> dynArray_split text sep = Some \<lparr>data = [text]\<rparr>"
  by (simp add: dynArray_split_tokens split_tokens_no_sep)

theorem split_no_separator_witness:
  "dynArray_split ''and three'' (CHR '','') = Some \<lparr>data = [''and three'']\<rparr>"
  using split_no_separator [of "''and three''" "CHR '',''"] by simp

text \<open>
  The claim C6 counts one token more than there are separators, for every text. A
  separator that ends the text opens no further token: \<open>''a,b,''\<close> has two
  separators and two tokens.
\<close>

theorem split_count_counterexample:
  "dynArray_split ''a,b,'' (CHR '','') = Some \<lparr>data = [''a'', ''b'']\<rparr> \<and>
   size_dynArray \<lparr>data = [''a'', ''b'']\<rparr> \<noteq> count_list ''a,b,'' (CHR '','') + 1"
  by (simp add: dynArray_split_tokens size_dynArray_def)

text \<open>
  C6, as the code has it. The constructor returns for every text and separator, and
  the number of tokens is the number of separators in the text plus one when the text
  is not empty and does not end in the separator, and the number of separators alone
  when the text is empty or ends in the separator.
\<close>

theorem split_count:
  "\<exists>d. dynArray_split text sep = Some d \<and>
     size_dynArray d =
       count_list text sep + (if text = [] \<or> last text = sep then 0 else 1)"
  by (simp add: dynArray_split_tokens size_dynArray_def length_split_tokens)

text \<open>
  C9. Splitting the empty string, on any separator, returns a container of length
  zero.
\<close>

theorem split_empty:
  "\<exists>d. dynArray_split [] sep = Some d \<and> size_dynArray d = 0"
  by (simp add: dynArray_split_tokens size_dynArray_def)

text \<open>
  The claim C10 gives a text that ends in the separator the tokens of the text before
  that separator, and no empty token at the end. When the text before the final
  separator itself ends in a separator this fails: \<open>''a,,''\<close> yields \<open>''a''\<close> and an
  empty token, \<open>''a,''\<close> yields \<open>''a''\<close> alone.
\<close>

theorem split_trailing_counterexample:
  "dynArray_split ''a,,'' (CHR '','') = Some \<lparr>data = [''a'', '''']\<rparr> \<and>
   dynArray_split ''a,'' (CHR '','') = Some \<lparr>data = [''a'']\<rparr> \<and>
   dynArray_split ''a,,'' (CHR '','') \<noteq> dynArray_split ''a,'' (CHR '','')"
  by (simp add: dynArray_split_tokens)

text \<open>
  C10, as the code has it. Let \<open>p\<close> be the text before the final separator. When
  \<open>p\<close> is not empty and does not end in the separator, the tokens of \<open>p\<close> followed
  by the separator are exactly the tokens of \<open>p\<close>; when \<open>p\<close> is empty or ends in
  the separator, they are the tokens of \<open>p\<close> followed by one empty token.
\<close>

theorem split_trailing_separator:
  "\<exists>d. dynArray_split p sep = Some d \<and>
     dynArray_split (p @ [sep]) sep =
       Some (if p = [] \<or> last p = sep then add [] d else d)"
  by (simp add: dynArray_split_tokens split_tokens_snoc add_def push_back_def)

theorem split_trailing_separator_witness:
  "dynArray_split ''a,b,'' (CHR '','') = dynArray_split ''a,b'' (CHR '','')"
  using split_trailing_separator [of "''a,b''" "CHR '',''"] by auto

subsection \<open>Totality\<close>




end
